theory Spec2Isabelle
  imports Complex_Main "HOL-Library.Sublist"
begin

section \<open>Graphs as networkx keeps them\<close>

text \<open>
  \<^verbatim>\<open>optimisation.py\<close> works on an undirected \<^verbatim>\<open>nx.Graph\<close> whose vertices are Python
  integers. Two things of the graph object are observed by the program: the iteration
  order of \<^verbatim>\<open>G.nodes\<close> (a dictionary view: insertion order, no key twice) and the
  adjacency. The model keeps the node list in insertion order and the list of edges in
  the order they were added.
\<close>

type_synonym vertex = int

record graph =
  nodes :: "vertex list"
  edges :: "(vertex \<times> vertex) list"

text \<open>\<^verbatim>\<open>nx.Graph()\<close>\<close>

definition empty_graph :: graph where
  "empty_graph = \<lparr>nodes = [], edges = []\<rparr>"

text \<open>\<^verbatim>\<open>G.add_nodes_from(ns)\<close>: a node already present keeps its place.\<close>

fun add_nodes_from :: "vertex list \<Rightarrow> graph \<Rightarrow> graph" where
  "add_nodes_from [] G = G"
| "add_nodes_from (v # vs) G =
     add_nodes_from vs (if v \<in> set (nodes G) then G else G\<lparr>nodes := nodes G @ [v]\<rparr>)"

text \<open>\<^verbatim>\<open>G.add_edge(u, v)\<close>: endpoints that are not nodes yet are added, \<open>u\<close> first.\<close>

definition add_edge :: "vertex \<Rightarrow> vertex \<Rightarrow> graph \<Rightarrow> graph" where
  "add_edge u v G = (add_nodes_from [u, v] G)\<lparr>edges := edges G @ [(u, v)]\<rparr>"

text \<open>
  \<^verbatim>\<open>list(G.neighbors(v))\<close>: every neighbour once, in the order in which it first became
  one; a self-loop makes \<open>v\<close> its own neighbour.
\<close>

definition neighbors :: "graph \<Rightarrow> vertex \<Rightarrow> vertex list" where
  "neighbors G v =
     rev (remdups (rev (concat
       (map (\<lambda>(a, b). (if a = v then [b] else []) @ (if b = v then [a] else [])) (edges G)))))"

definition adjacent :: "graph \<Rightarrow> vertex \<Rightarrow> vertex \<Rightarrow> bool" where
  "adjacent G u v \<longleftrightarrow> (u, v) \<in> set (edges G) \<or> (v, u) \<in> set (edges G)"

section \<open>The subset space\<close>

text \<open>
  Both LP builders start with
  \<^verbatim>\<open>
  xs = {}
  for L in range(0, len(G.nodes) + 1):
      for subset in itertools.combinations(G.nodes, L):
          xs[subset] = 0
  \<close>
  \<^verbatim>\<open>itertools.combinations(ns, L)\<close> yields the \<open>L\<close>-element tuples of \<open>ns\<close> by position,
  in lexicographic order of the positions; the elements of each tuple keep the order
  they have in \<open>ns\<close>.
\<close>

type_synonym key = "vertex list"

fun combinations :: "'a list \<Rightarrow> nat \<Rightarrow> 'a list list" where
  "combinations xs 0 = [[]]"
| "combinations [] (Suc k) = []"
| "combinations (x # xs) (Suc k) = map ((#) x) (combinations xs k) @ combinations xs (Suc k)"

text \<open>The keys of the dictionary \<open>xs\<close>, in insertion order.\<close>

definition subset_keys :: "'a list \<Rightarrow> 'a list list" where
  "subset_keys ns = concat (map (combinations ns) [0 ..< length ns + 1])"

section \<open>Python exceptions\<close>

datatype py_error = KeyError | ValueError | IndexError | IOError | TypeError | AttributeError

text \<open>Running a loop body over a list, stopping at the first exception.\<close>

fun mapM :: "('a \<Rightarrow> py_error + 'b) \<Rightarrow> 'a list \<Rightarrow> py_error + 'b list" where
  "mapM f [] = Inr []"
| "mapM f (x # xs) =
     (case f x of
        Inl e \<Rightarrow> Inl e
      | Inr y \<Rightarrow> (case mapM f xs of Inl e \<Rightarrow> Inl e | Inr ys \<Rightarrow> Inr (y # ys)))"

section \<open>Linear programs as PuLP receives them\<close>

text \<open>
  A linear expression is a list of terms (coefficient, variable); a variable is named by
  its key. A constraint compares a linear expression with an integer constant.
  \<^verbatim>\<open>LpVariable.dicts("Xs", xs, lowBound=0, upBound=None, cat='Continuous')\<close> makes one
  variable per key of \<open>xs\<close>, bounded below by 0.
\<close>

datatype sense = LE | GE | EQ

datatype direction = LpMinimize | LpMaximize

type_synonym linexpr = "(int \<times> key) list"

record constraint =
  c_lhs :: linexpr
  c_sense :: sense
  c_rhs :: int

record lp_problem =
  lp_direction :: direction
  lp_vars :: "key list"
  lp_objective :: linexpr
  lp_constraints :: "constraint list"

text \<open>\<^verbatim>\<open>lp_xs[k]\<close>: a dictionary lookup, KeyError for a key that is not there.\<close>

definition lp_var :: "key list \<Rightarrow> key \<Rightarrow> py_error + key" where
  "lp_var ks k = (if k \<in> set ks then Inr k else Inl KeyError)"

definition eval_lin :: "(key \<Rightarrow> rat) \<Rightarrow> linexpr \<Rightarrow> rat" where
  "eval_lin val e = (\<Sum>(c, k)\<leftarrow>e. of_int c * val k)"

definition satisfies :: "(key \<Rightarrow> rat) \<Rightarrow> constraint \<Rightarrow> bool" where
  "satisfies val c =
     (case c_sense c of
        LE \<Rightarrow> eval_lin val (c_lhs c) \<le> of_int (c_rhs c)
      | GE \<Rightarrow> eval_lin val (c_lhs c) \<ge> of_int (c_rhs c)
      | EQ \<Rightarrow> eval_lin val (c_lhs c) = of_int (c_rhs c))"

text \<open>An assignment is feasible when it respects the lower bounds and every constraint.\<close>

definition feasible :: "lp_problem \<Rightarrow> (key \<Rightarrow> rat) \<Rightarrow> bool" where
  "feasible lp val \<longleftrightarrow>
     list_all (\<lambda>k. 0 \<le> val k) (lp_vars lp) \<and> list_all (satisfies val) (lp_constraints lp)"

section \<open>The fractional clique cover model\<close>

definition is_clique :: "graph \<Rightarrow> key \<Rightarrow> bool" where
  "is_clique G c \<longleftrightarrow> list_all (\<lambda>u. list_all (\<lambda>v. u = v \<or> adjacent G u v) c) c"

text \<open>
  Modelled from the spec: \<^verbatim>\<open>nx.enumerate_all_cliques\<close> is a function of the networkx
  library, which is not part of the repository's source. Section 4.2 of the specification
  gives its contract: every clique of the graph, no duplicates, in the key form of the
  subset space. The library lists the cliques by size from the singletons upward, each
  in the order of \<^verbatim>\<open>G.nodes\<close>; the empty clique, which the specification and the comment
  on line 14 count in, is not listed, and the model follows the library there.
\<close>

definition enumerate_all_cliques :: "graph \<Rightarrow> key list" where
  "enumerate_all_cliques G =
     filter (\<lambda>c. c \<noteq> [] \<and> is_clique G c) (subset_keys (nodes G))"

text \<open>
  \<^verbatim>\<open>
  prob = LpProblem("Fraction Clique Cover", LpMinimize)
  lp_xs = LpVariable.dicts("Xs", xs, lowBound=0, upBound=None, cat='Continuous')
  prob += lpSum(lp_xs), "Sum of Xs"
  for vertex in G.nodes:
      cliques_containing_v = []
      for clique in K:
          if vertex in clique:
              cliques_containing_v.append(clique)
      prob += lpSum(lp_xs[tuple(x)] for x in cliques_containing_v) >= 1
  \<close>
  The clique list \<open>K\<close> is a parameter of the model builder.
\<close>

definition cover_constraint :: "key list \<Rightarrow> key list \<Rightarrow> vertex \<Rightarrow> py_error + constraint" where
  "cover_constraint ks K v =
     (case mapM (lp_var ks) (filter (\<lambda>clique. v \<in> set clique) K) of
        Inl e \<Rightarrow> Inl e
      | Inr vars \<Rightarrow> Inr \<lparr>c_lhs = map (Pair 1) vars, c_sense = GE, c_rhs = 1\<rparr>)"

definition fcc_model :: "graph \<Rightarrow> key list \<Rightarrow> py_error + lp_problem" where
  "fcc_model G K =
     (let ks = subset_keys (nodes G) in
      case mapM (cover_constraint ks K) (nodes G) of
        Inl e \<Rightarrow> Inl e
      | Inr cs \<Rightarrow> Inr \<lparr>lp_direction = LpMinimize, lp_vars = ks,
                        lp_objective = map (Pair 1) ks, lp_constraints = cs\<rparr>)"

definition fractional_clique_cover_model :: "graph \<Rightarrow> py_error + lp_problem" where
  "fractional_clique_cover_model G = fcc_model G (enumerate_all_cliques G)"

text \<open>The assignment of weight 1 to every singleton subset and 0 to every other subset.\<close>

definition all_singletons :: "key \<Rightarrow> rat" where
  "all_singletons k = (if length k = 1 then 1 else 0)"

section \<open>The Shannon entropy model\<close>

text \<open>
  \<^verbatim>\<open>
  prob += lpSum(lp_xs[tuple(list(xs.keys())[-1])]), "Value of Xv"
  prob += lp_xs[tuple()] == 0
  for item in lp_xs:
      if len(item) == 1:
          prob += lp_xs[item] <= 1
  for vertex in G.nodes:
      N_v = list(G.neighbors(vertex))
      N_v_u_v = list(G.neighbors(vertex))
      N_v_u_v.append(vertex)
      N_v.sort()
      N_v_u_v.sort()
      prob += lpSum(lp_xs[tuple(N_v_u_v)]-lp_xs[tuple(N_v)]) == 0
  \<close>
\<close>

definition normalisation_constraint :: constraint where
  "normalisation_constraint = \<lparr>c_lhs = [(1, [])], c_sense = EQ, c_rhs = 0\<rparr>"

definition singleton_constraints :: "key list \<Rightarrow> constraint list" where
  "singleton_constraints ks =
     map (\<lambda>item. \<lparr>c_lhs = [(1, item)], c_sense = LE, c_rhs = 1\<rparr>)
         (filter (\<lambda>item. length item = 1) ks)"

definition neighbourhood_constraint :: "graph \<Rightarrow> key list \<Rightarrow> vertex \<Rightarrow> py_error + constraint" where
  "neighbourhood_constraint G ks v =
     (let N_v = sort (neighbors G v);
          N_v_u_v = sort (neighbors G v @ [v])
      in case lp_var ks N_v_u_v of
           Inl e \<Rightarrow> Inl e
         | Inr a \<Rightarrow>
             (case lp_var ks N_v of
                Inl e \<Rightarrow> Inl e
              | Inr b \<Rightarrow> Inr \<lparr>c_lhs = [(1, a), (- 1, b)], c_sense = EQ, c_rhs = 0\<rparr>))"

text \<open>
  \<^verbatim>\<open>
  for x in range(len(xs)-2):
      S = list(xs)[x]
      for y in range(x+1, len(xs)-1):
          T = list(xs)[y]
          if set(S).issubset(T):
              prob += lpSum(lp_xs[T] - lp_xs[S]) >= 0  # 4.
          if not set(S).issubset(T):
              X_s_u_t = list(set(S + T))  # Union
              X_s_n_t = [val for val in S if val in T]  # Intersection
              X_s_u_t.sort()
              X_s_n_t.sort()
              prob += lpSum(lp_xs[S] + lp_xs[T] - lp_xs[tuple(X_s_u_t)] - lp_xs[tuple(X_s_n_t)]) >= 0  # 5.
  \<close>
  \<^verbatim>\<open>range(len(xs)-2)\<close> is empty when the dictionary has fewer than three keys, as the
  truncating subtraction on \<open>nat\<close> makes it here.
\<close>

definition pair_indices :: "nat \<Rightarrow> (nat \<times> nat) list" where
  "pair_indices m = concat (map (\<lambda>x. map (Pair x) [x + 1 ..< m - 1]) [0 ..< m - 2])"

definition monotonicity :: "key \<Rightarrow> key \<Rightarrow> constraint" where
  "monotonicity S T = \<lparr>c_lhs = [(1, T), (- 1, S)], c_sense = GE, c_rhs = 0\<rparr>"

definition submodularity :: "key \<Rightarrow> key \<Rightarrow> key \<Rightarrow> key \<Rightarrow> constraint" where
  "submodularity S T U I =
     \<lparr>c_lhs = [(1, S), (1, T), (- 1, U), (- 1, I)], c_sense = GE, c_rhs = 0\<rparr>"

definition pair_constraint :: "key list \<Rightarrow> key \<Rightarrow> key \<Rightarrow> py_error + constraint" where
  "pair_constraint ks S T =
     (if set S \<subseteq> set T then Inr (monotonicity S T)
      else
        let X_s_u_t = sort (remdups (S @ T));
            X_s_n_t = sort (filter (\<lambda>val. val \<in> set T) S)
        in case lp_var ks X_s_u_t of
             Inl e \<Rightarrow> Inl e
           | Inr u \<Rightarrow>
               (case lp_var ks X_s_n_t of
                  Inl e \<Rightarrow> Inl e
                | Inr i \<Rightarrow> Inr (submodularity S T u i)))"

definition pair_constraints :: "key list \<Rightarrow> py_error + constraint list" where
  "pair_constraints ks =
     mapM (\<lambda>(x, y). pair_constraint ks (ks ! x) (ks ! y)) (pair_indices (length ks))"

definition shannon_model :: "graph \<Rightarrow> py_error + lp_problem" where
  "shannon_model G =
     (let ks = subset_keys (nodes G) in
      case mapM (neighbourhood_constraint G ks) (nodes G) of
        Inl e \<Rightarrow> Inl e
      | Inr c3 \<Rightarrow>
          (case pair_constraints ks of
             Inl e \<Rightarrow> Inl e
           | Inr c45 \<Rightarrow>
               Inr \<lparr>lp_direction = LpMaximize, lp_vars = ks,
                    lp_objective = [(1, last ks)],
                    lp_constraints =
                      normalisation_constraint # singleton_constraints ks @ c3 @ c45\<rparr>))"

section \<open>The solver's answer and the rational post-processing\<close>

text \<open>
  Modelled from the spec: the LP solver behind \<^verbatim>\<open>prob.solve()\<close> is not part of the
  repository's source. Section 6 of the specification gives its interface: a status and
  a value per variable. The statuses are PuLP's \<^verbatim>\<open>LpStatus\<close>; a variable that was never
  assigned has the value \<^verbatim>\<open>None\<close>. The solver's floating-point values are taken as the
  rationals they denote, and the rounding of their sum is not modelled.
\<close>

datatype lp_status = NotSolved | Optimal | Infeasible | Unbounded | Undefined

record solution =
  status :: lp_status
  varValue :: "key \<Rightarrow> rat option"

text \<open>
  Modelled from the spec: an optimal solution of a model is a feasible assignment whose
  objective value no feasible assignment improves.
\<close>

definition optimal_solution :: "lp_problem \<Rightarrow> (key \<Rightarrow> rat) \<Rightarrow> bool" where
  "optimal_solution lp val \<longleftrightarrow>
     feasible lp val \<and>
     (\<forall>val'. feasible lp val' \<longrightarrow>
        (case lp_direction lp of
           LpMaximize \<Rightarrow> eval_lin val' (lp_objective lp) \<le> eval_lin val (lp_objective lp)
         | LpMinimize \<Rightarrow> eval_lin val (lp_objective lp) \<le> eval_lin val' (lp_objective lp)))"

text \<open>
  Modelled from the spec: \<^verbatim>\<open>Fraction.from_float(v).limit_denominator(100)\<close> is a function
  of Python's standard library, not of the repository's source. Section 4.5 of the
  specification gives its contract: the best rational approximation of the value with a
  denominator of at most 100. For each denominator the nearest numerator is taken, and
  among these candidates the first that is closest to the value.
\<close>

definition candidates :: "rat \<Rightarrow> rat list" where
  "candidates x = map (\<lambda>q. of_int (round (x * of_nat q)) / of_nat q) [1 ..< 101]"

fun closest :: "rat \<Rightarrow> rat \<Rightarrow> rat list \<Rightarrow> rat" where
  "closest x best [] = best"
| "closest x best (c # cs) = closest x (if \<bar>x - c\<bar> < \<bar>x - best\<bar> then c else best) cs"

definition limit_denominator_100 :: "rat \<Rightarrow> rat" where
  "limit_denominator_100 x = closest x (of_int (round x)) (candidates x)"

text \<open>
  \<^verbatim>\<open>
  prob.solve()
  print("Status -", LpStatus[prob.status])
  total = 0
  for item in lp_xs:
      val = lp_xs[item].varValue
      total += val
  total = Fraction.from_float(total).limit_denominator(100)
  return total, lp_xs
  \<close>
  Adding \<^verbatim>\<open>None\<close> to a number raises TypeError.
\<close>

fun sum_values :: "(key \<Rightarrow> rat option) \<Rightarrow> key list \<Rightarrow> rat \<Rightarrow> py_error + rat" where
  "sum_values vv [] tot = Inr tot"
| "sum_values vv (item # items) tot =
     (case vv item of
        None \<Rightarrow> Inl TypeError
      | Some val \<Rightarrow> sum_values vv items (tot + val))"

definition fcc_report :: "key list \<Rightarrow> solution \<Rightarrow> py_error + rat" where
  "fcc_report ks sol =
     (case sum_values (varValue sol) ks 0 of
        Inl e \<Rightarrow> Inl e
      | Inr tot \<Rightarrow> Inr (limit_denominator_100 tot))"

type_synonym lp_values = "(key \<times> rat option) list"

definition values_of :: "key list \<Rightarrow> solution \<Rightarrow> lp_values" where
  "values_of ks sol = map (\<lambda>k. (k, varValue sol k)) ks"

definition fractional_clique_cover ::
  "(lp_problem \<Rightarrow> solution) \<Rightarrow> graph \<Rightarrow> py_error + rat \<times> lp_values" where
  "fractional_clique_cover solve G =
     (case fractional_clique_cover_model G of
        Inl e \<Rightarrow> Inl e
      | Inr prob \<Rightarrow>
          (let sol = solve prob in
           case fcc_report (lp_vars prob) sol of
             Inl e \<Rightarrow> Inl e
           | Inr tot \<Rightarrow> Inr (tot, values_of (lp_vars prob) sol)))"

text \<open>
  \<^verbatim>\<open>
  prob.solve()
  print("Status -", LpStatus[prob.status])
  val = lp_xs[tuple(list(lp_xs)[-1])].varValue
  val = Fraction.from_float(val).limit_denominator(100)
  return val, lp_xs
  \<close>
  \<^verbatim>\<open>Fraction.from_float(None)\<close> raises TypeError.
\<close>

definition shannon_report :: "key list \<Rightarrow> solution \<Rightarrow> py_error + rat" where
  "shannon_report ks sol =
     (case varValue sol (last ks) of
        None \<Rightarrow> Inl TypeError
      | Some val \<Rightarrow> Inr (limit_denominator_100 val))"

definition shannon_entropy ::
  "(lp_problem \<Rightarrow> solution) \<Rightarrow> graph \<Rightarrow> py_error + rat \<times> lp_values" where
  "shannon_entropy solve G =
     (case shannon_model G of
        Inl e \<Rightarrow> Inl e
      | Inr prob \<Rightarrow>
          (let sol = solve prob in
           case shannon_report (lp_vars prob) sol of
             Inl e \<Rightarrow> Inl e
           | Inr val \<Rightarrow> Inr (val, values_of (lp_vars prob) sol)))"

text \<open>
  \<^verbatim>\<open>
  def calculate(G):
      fcc, fcc_vals = fractional_clique_cover(G)
      shann_ent, shannon_vals = shannon_entropy(G)
      return fcc, shann_ent, fcc_vals, shannon_vals
  \<close>
  The main loop can hand \<^verbatim>\<open>None\<close> to \<^verbatim>\<open>calculate\<close>; then \<^verbatim>\<open>len(G.nodes)\<close>, the first
  thing \<^verbatim>\<open>fractional_clique_cover\<close> evaluates, raises AttributeError.
\<close>

definition calculate ::
  "(lp_problem \<Rightarrow> solution) \<Rightarrow> graph option \<Rightarrow> py_error + rat \<times> rat \<times> lp_values \<times> lp_values" where
  "calculate solve G_opt =
     (case G_opt of
        None \<Rightarrow> Inl AttributeError
      | Some G \<Rightarrow>
          (case fractional_clique_cover solve G of
             Inl e \<Rightarrow> Inl e
           | Inr (fcc, fcc_vals) \<Rightarrow>
               (case shannon_entropy solve G of
                  Inl e \<Rightarrow> Inl e
                | Inr (shann_ent, shannon_vals) \<Rightarrow> Inr (fcc, shann_ent, fcc_vals, shannon_vals))))"

section \<open>Loading a graph from a file\<close>

text \<open>
  \<^verbatim>\<open>int(s)\<close> on an ASCII string: surrounding whitespace (space, tab, newline, vertical
  tab, form feed, carriage return) is dropped, one sign is allowed, then decimal digits,
  where single underscores may stand between digits. Anything else raises ValueError,
  and so do more than 4300 digits (CPython 3.11 and later). Text outside ASCII is not
  modelled.
\<close>

definition is_space :: "char \<Rightarrow> bool" where
  "is_space c \<longleftrightarrow>
     c \<in> set [CHR 0x20, CHR 0x09, CHR 0x0A, CHR 0x0B, CHR 0x0C, CHR 0x0D]"

definition is_digit :: "char \<Rightarrow> bool" where
  "is_digit c \<longleftrightarrow> c \<in> set ''0123456789''"

definition strip :: "string \<Rightarrow> string" where
  "strip s = rev (dropWhile is_space (rev (dropWhile is_space s)))"

fun no_double_underscore :: "string \<Rightarrow> bool" where
  "no_double_underscore (a # b # cs) \<longleftrightarrow>
     \<not> (a = CHR ''_'' \<and> b = CHR ''_'') \<and> no_double_underscore (b # cs)"
| "no_double_underscore cs \<longleftrightarrow> True"

definition valid_digits :: "string \<Rightarrow> bool" where
  "valid_digits body \<longleftrightarrow>
     body \<noteq> [] \<and> is_digit (hd body) \<and> is_digit (last body) \<and>
     list_all (\<lambda>c. is_digit c \<or> c = CHR ''_'') body \<and> no_double_underscore body"

definition digits_value :: "string \<Rightarrow> int" where
  "digits_value body = foldl (\<lambda>a c. 10 * a + (int (of_char c) - 48)) 0 (filter is_digit body)"

definition py_int :: "string \<Rightarrow> py_error + int" where
  "py_int s =
     (let t = strip s;
          (negative, body) =
            (case t of
               [] \<Rightarrow> (False, t)
             | c # r \<Rightarrow> if c = CHR ''-'' then (True, r) else if c = CHR ''+'' then (False, r) else (False, t))
      in if valid_digits body \<and> length (filter is_digit body) \<le> 4300
         then Inr (if negative then - digits_value body else digits_value body)
         else Inl ValueError)"

text \<open>\<^verbatim>\<open>s.split(sep)\<close> with a one-character separator: always at least one piece.\<close>

fun split_on :: "char \<Rightarrow> string \<Rightarrow> string list" where
  "split_on sep [] = [[]]"
| "split_on sep (c # cs) =
     (if c = sep then [] # split_on sep cs
      else (case split_on sep cs of [] \<Rightarrow> [[c]] | p # ps \<Rightarrow> (c # p) # ps))"

text \<open>
  \<^verbatim>\<open>file.readline()\<close>: the text up to and including the next newline, and what is left.
  The file's text is taken after Python's newline translation.
\<close>

definition readline :: "string \<Rightarrow> string \<times> string" where
  "readline s =
     (case dropWhile (\<lambda>c. c \<noteq> CHR 0x0A) s of
        [] \<Rightarrow> (s, [])
      | c # rest \<Rightarrow> (takeWhile (\<lambda>c. c \<noteq> CHR 0x0A) s @ [c], rest))"

text \<open>\<^verbatim>\<open>range(n)\<close> for a Python integer: empty when \<open>n \<le> 0\<close>.\<close>

definition py_range :: "int \<Rightarrow> int list" where
  "py_range n = map int [0 ..< nat n]"

text \<open>
  \<^verbatim>\<open>
  def load(filename):
      try:
          G = nx.Graph()
          with open(filename, 'r') as file:
              line = file.readline()
              G.add_nodes_from([x for x in range(int(line))])
              edges = file.readline().split(";")
              for edge in edges:
                  G.add_edge(int(edge.split(",")[0]), int(edge.split(",")[1]))
          print("Graph successfully loaded.")
          return G
      except IOError:
          print("Loading failed - file does not exist.")
      except Exception:
          print("Something went wrong... likely invalid file format?")
  \<close>
  The body of the \<^verbatim>\<open>with\<close> block is \<open>load_graph\<close>; an exception ends it.
\<close>

definition parse_edge :: "string \<Rightarrow> py_error + (int \<times> int)" where
  "parse_edge edge =
     (let parts = split_on CHR '','' edge in
      case py_int (parts ! 0) of
        Inl e \<Rightarrow> Inl e
      | Inr u \<Rightarrow>
          (if length parts < 2 then Inl IndexError
           else (case py_int (parts ! 1) of Inl e \<Rightarrow> Inl e | Inr v \<Rightarrow> Inr (u, v))))"

fun add_edges :: "string list \<Rightarrow> graph \<Rightarrow> py_error + graph" where
  "add_edges [] G = Inr G"
| "add_edges (edge # rest) G =
     (case parse_edge edge of
        Inl e \<Rightarrow> Inl e
      | Inr (u, v) \<Rightarrow> add_edges rest (add_edge u v G))"

definition load_graph :: "string \<Rightarrow> py_error + graph" where
  "load_graph content =
     (let (line, rest) = readline content in
      case py_int line of
        Inl e \<Rightarrow> Inl e
      | Inr n \<Rightarrow>
          add_edges (split_on CHR '';'' (fst (readline rest)))
                    (add_nodes_from (py_range n) empty_graph))"

text \<open>
  The file system maps a file name to the text of the file, when there is one. Opening
  a missing file raises IOError. Both \<^verbatim>\<open>except\<close> clauses only print and fall off the end
  of the function, so the result is \<^verbatim>\<open>None\<close>.
\<close>

type_synonym file_system = "string \<Rightarrow> string option"

definition load :: "file_system \<Rightarrow> string \<Rightarrow> graph option" where
  "load fs filename =
     (case fs filename of
        None \<Rightarrow> None
      | Some content \<Rightarrow> (case load_graph content of Inl e \<Rightarrow> None | Inr G \<Rightarrow> Some G))"

section \<open>The main loop\<close>

text \<open>
  \<^verbatim>\<open>
  G = nx.Graph()
  fcc, shannon_ent = -1, -1
  fcc_vals, shannon_vals = [], []
  while True:
      ...
      if x == 0:   break
      elif x == 1: G = create_graph(); fcc, shannon_ent = -1, -1; fcc_vals, shannon_vals = [], []
      elif x == 2: filename = input("Filename: "); G = load(filename)
                   fcc, shannon_ent = -1, -1; fcc_vals, shannon_vals = [], []
      elif x == 3: fcc, shannon_ent, fcc_vals, shannon_vals = calculate(G)
      elif x == 4: save(fcc, shannon_ent, fcc_vals, shannon_vals, G)
  \<close>
  The variable \<open>G\<close> of the loop holds a graph or \<^verbatim>\<open>None\<close>. The graph typed in at
  \<^verbatim>\<open>create_graph\<close> and the file name come with the action. An exception that leaves a
  step is not caught by the loop and ends the program.
\<close>

record main_state =
  cur_G :: "graph option"
  fcc :: rat
  shannon_ent :: rat
  fcc_vals :: lp_values
  shannon_vals :: lp_values

definition initial_state :: main_state where
  "initial_state =
     \<lparr>cur_G = Some empty_graph, fcc = - 1, shannon_ent = - 1, fcc_vals = [], shannon_vals = []\<rparr>"

datatype action = NewGraph graph | LoadGraph string | Calculate | SaveResult

text \<open>
  \<^verbatim>\<open>save\<close> returns at once when there are no results; otherwise it writes a report, for
  which it reads \<^verbatim>\<open>G.number_of_nodes()\<close> and every value. The report itself is not
  modelled.
\<close>

definition save :: "main_state \<Rightarrow> py_error + unit" where
  "save st =
     (if fcc st = - 1 \<or> shannon_ent st = - 1 then Inr ()
      else (case cur_G st of
              None \<Rightarrow> Inl AttributeError
            | Some G \<Rightarrow>
                if list_all (\<lambda>(k, v). v \<noteq> None) (fcc_vals st @ shannon_vals st) then Inr ()
                else Inl TypeError))"

definition step ::
  "(lp_problem \<Rightarrow> solution) \<Rightarrow> file_system \<Rightarrow> action \<Rightarrow> main_state \<Rightarrow> py_error + main_state" where
  "step solve fs a st =
     (case a of
        NewGraph G \<Rightarrow>
          Inr \<lparr>cur_G = Some G, fcc = - 1, shannon_ent = - 1, fcc_vals = [], shannon_vals = []\<rparr>
      | LoadGraph filename \<Rightarrow>
          Inr \<lparr>cur_G = load fs filename, fcc = - 1, shannon_ent = - 1,
               fcc_vals = [], shannon_vals = []\<rparr>
      | Calculate \<Rightarrow>
          (case calculate solve (cur_G st) of
             Inl e \<Rightarrow> Inl e
           | Inr (f, s, fv, sv) \<Rightarrow>
               Inr (st\<lparr>fcc := f, shannon_ent := s, fcc_vals := fv, shannon_vals := sv\<rparr>))
      | SaveResult \<Rightarrow> (case save st of Inl e \<Rightarrow> Inl e | Inr u \<Rightarrow> Inr st))"

section \<open>A complete bipartite graph on five vertices\<close>

text \<open>
  The graph with the parts \<open>{0, 4}\<close> and \<open>{1, 2, 3}\<close>, as \<^verbatim>\<open>create_graph\<close> builds it from
  five nodes and the six edges typed in this order, and an assignment of values to its
  32 subsets.
\<close>

definition K23 :: graph where
  "K23 = \<lparr>nodes = [0, 1, 2, 3, 4],
          edges = [(0, 1), (0, 2), (0, 3), (1, 4), (2, 4), (3, 4)]\<rparr>"

definition K23_table :: "(key \<times> rat) list" where
  "K23_table =
     [([], 0), ([0], 1), ([1], 1), ([2], 1), ([3], 1 / 2), ([4], 1),
      ([0, 1], 3 / 2), ([0, 2], 3 / 2), ([0, 3], 3 / 2), ([0, 4], 2), ([1, 2], 2),
      ([1, 3], 3 / 2), ([1, 4], 3 / 2), ([2, 3], 3 / 2), ([2, 4], 3 / 2), ([3, 4], 3 / 2),
      ([0, 1, 2], 2), ([0, 1, 3], 2), ([0, 1, 4], 2), ([0, 2, 3], 2), ([0, 2, 4], 2),
      ([0, 3, 4], 2), ([1, 2, 3], 5 / 2), ([1, 2, 4], 2), ([1, 3, 4], 2), ([2, 3, 4], 2),
      ([0, 1, 2, 3], 5 / 2), ([0, 1, 2, 4], 2), ([0, 1, 3, 4], 2), ([0, 2, 3, 4], 2),
      ([1, 2, 3, 4], 5 / 2), ([0, 1, 2, 3, 4], 2)]"

definition K23_val :: "key \<Rightarrow> rat" where
  "K23_val k = (case map_of K23_table k of Some v \<Rightarrow> v | None \<Rightarrow> 0)"

section \<open>The subset space: size, keys and their order\<close>

lemma combinations_Nil: "combinations [] k = (if k = 0 then [[]] else [])"
  by (cases k) simp_all

lemma in_combinations: "ys \<in> set (combinations xs k) \<longleftrightarrow> subseq ys xs \<and> length ys = k"
proof (induction xs k arbitrary: ys rule: combinations.induct)
  case (1 xs)
  then show ?case by auto
next
  case (2 k)
  then show ?case by auto
next
  case (3 x xs k)
  show ?case
  proof (cases ys)
    case Nil
    then show ?thesis using 3 by auto
  next
    case (Cons y zs)
    then show ?thesis using 3 by (auto simp: subseq_Cons2_iff dest: subseq_Cons')
  qed
qed

lemma length_combinations: "length (combinations xs k) = length xs choose k"
  by (induction xs k rule: combinations.induct) simp_all

lemma length_subset_keys: "length (subset_keys ns) = 2 ^ length ns"
proof -
  have "length (subset_keys ns) = (\<Sum>k\<leftarrow>[0 ..< length ns + 1]. length ns choose k)"
    by (simp add: subset_keys_def length_concat comp_def length_combinations del: upt_Suc)
  also have "\<dots> = (\<Sum>k\<le>length ns. length ns choose k)"
    by (simp add: interv_sum_list_conv_sum_set_nat atLeast0AtMost atLeastLessThanSuc_atLeastAtMost del: upt_Suc)
  finally show ?thesis by (simp add: choose_row_sum)
qed

lemma set_subset_keys: "set (subset_keys ns) = {ys. subseq ys ns}"
proof -
  have "subseq ys ns \<Longrightarrow> length ys < Suc (length ns)" for ys
    using list_emb_length [of "(=)" ys ns] by simp
  then show ?thesis
    by (auto simp: subset_keys_def in_combinations simp del: upt_Suc)
qed

lemma set_image_subset_keys: "set ` set (subset_keys ns) = Pow (set ns)"
  using subseqs_powset [of ns] by (simp add: set_subset_keys set_subseqs_eq)

lemma distinct_map_set_subset_keys:
  assumes "distinct ns"
  shows "distinct (map set (subset_keys ns))"
proof (rule card_distinct)
  have "card (set (map set (subset_keys ns))) = card (Pow (set ns))"
    by (simp add: set_image_subset_keys)
  also have "\<dots> = 2 ^ length ns"
    using assms by (simp add: card_Pow distinct_card)
  finally show "card (set (map set (subset_keys ns))) = length (map set (subset_keys ns))"
    by (simp add: length_subset_keys)
qed

lemma distinct_subset_keys: "distinct ns \<Longrightarrow> distinct (subset_keys ns)"
  using distinct_map_set_subset_keys [of ns] by (simp add: distinct_map)

lemma subset_keys_inj_set:
  "distinct ns \<Longrightarrow> k \<in> set (subset_keys ns) \<Longrightarrow> k' \<in> set (subset_keys ns) \<Longrightarrow> set k = set k' \<Longrightarrow> k = k'"
  using distinct_map_set_subset_keys [of ns] by (auto simp: distinct_map inj_on_def)

lemma subseq_sorted: "subseq ys xs \<Longrightarrow> sorted xs \<Longrightarrow> sorted (ys :: 'a :: linorder list)"
proof (induction rule: list_emb.induct)
  case (list_emb_Cons xs ys y)
  then show ?case by simp
next
  case (list_emb_Cons2 x y xs ys)
  then show ?case by (auto dest: list_emb_set)
qed simp

text \<open>
  For a graph whose node list has no vertex twice, the dictionary \<open>xs\<close> holds exactly
  \<open>2 ^ n\<close> keys, all different, one for every subset of the vertex set, and two keys with
  the same elements are the same key. Each key lists its elements in the order of
  \<^verbatim>\<open>G.nodes\<close>, so the keys are sorted tuples when the node list is ascending.
\<close>

theorem subset_space_keys:
  "distinct (nodes G) \<Longrightarrow>
     length (subset_keys (nodes G)) = 2 ^ length (nodes G) \<and>
     distinct (subset_keys (nodes G)) \<and>
     set ` set (subset_keys (nodes G)) = Pow (set (nodes G)) \<and>
     (\<forall>k \<in> set (subset_keys (nodes G)). \<forall>k' \<in> set (subset_keys (nodes G)).
        set k = set k' \<longrightarrow> k = k') \<and>
     (\<forall>k \<in> set (subset_keys (nodes G)). subseq k (nodes G)) \<and>
     (sorted (nodes G) \<longrightarrow> (\<forall>k \<in> set (subset_keys (nodes G)). sorted k))"
proof -
  assume d: "distinct (nodes G)"
  have inj: "\<forall>k \<in> set (subset_keys (nodes G)). \<forall>k' \<in> set (subset_keys (nodes G)).
        set k = set k' \<longrightarrow> k = k'"
    using subset_keys_inj_set [OF d] by blast
  have sub: "\<forall>k \<in> set (subset_keys (nodes G)). subseq k (nodes G)"
    by (simp add: set_subset_keys)
  have srt: "sorted (nodes G) \<longrightarrow> (\<forall>k \<in> set (subset_keys (nodes G)). sorted k)"
    using sub subseq_sorted by blast
  show ?thesis
    using length_subset_keys [of "nodes G"] distinct_subset_keys [OF d]
      set_image_subset_keys [of "nodes G"] inj sub srt
    by blast
qed

theorem subset_space_keys_witness:
  "distinct (nodes \<lparr>nodes = [0, 1, 2], edges = [(0, 1)]\<rparr>) \<and>
   sorted (nodes \<lparr>nodes = [0, 1, 2], edges = [(0, 1)]\<rparr>) \<and>
   length (subset_keys [0, 1, 2 :: int]) = 8 \<and>
   distinct (subset_keys [0, 1, 2 :: int]) \<and>
   list_all sorted (subset_keys [0, 1, 2 :: int])"
  using subset_space_keys [of "\<lparr>nodes = [0, 1, 2], edges = [(0, 1)]\<rparr>"]
  by (simp add: list_all_iff)

text \<open>
  Claim C8 asks that every subset is stored under a sorted tuple, so that a key
  recomputed by sorting finds it. A file whose edge names vertex 1 before vertex 0, with
  a vertex count of 0, loads as a graph with the node order 1, 0; the subset space takes
  its keys from that order without sorting them, and the key of the full vertex set is
  the unsorted tuple (1, 0).
\<close>

theorem unsorted_key_counterexample:
  "load_graph (''0'' @ [CHR 0x0A] @ ''1,0'') = Inr \<lparr>nodes = [1, 0], edges = [(1, 0)]\<rparr> \<and>
   distinct (nodes \<lparr>nodes = [1, 0], edges = [(1, 0)]\<rparr>) \<and>
   [1, 0] \<in> set (subset_keys (nodes \<lparr>nodes = [1, 0], edges = [(1, 0)]\<rparr>)) \<and>
   \<not> sorted [1, 0 :: int]"
  by code_simp

text \<open>
  The lookups of the entropy model sort the key they ask for (lines 86 to 88 and 104 to
  105); on this graph the sorted key (0, 1) is not in the dictionary and building the
  model raises KeyError.
\<close>

lemma unsorted_keys_raise_KeyError:
  "shannon_model \<lparr>nodes = [1, 0], edges = [(1, 0)]\<rparr> = Inl KeyError"
  by code_simp

section \<open>The pairs of the entropy model\<close>

text \<open>The index of the last key, the full vertex set, is never reached by the two loops.\<close>

lemma pair_indices_skip_last: "(x, y) \<in> set (pair_indices m) \<Longrightarrow> x < y \<and> y < m - 1"
  by (auto simp: pair_indices_def)

text \<open>
  Claim C1 asks for one constraint, monotonicity or submodularity, for every unordered
  pair of distinct subsets. On the graph with the two vertices 0 and 1 and no edge the
  loops emit three constraints, for the pairs among the empty set, \<open>{0}\<close> and \<open>{1}\<close>; the
  three pairs with the full vertex set \<open>{0, 1}\<close> get none.
\<close>

theorem entropy_pairs_two_nodes:
  "subset_keys (nodes \<lparr>nodes = [0, 1], edges = []\<rparr>) = [[], [0], [1], [0, 1]] \<and>
   pair_constraints (subset_keys (nodes \<lparr>nodes = [0, 1], edges = []\<rparr>)) =
     Inr [monotonicity [] [0], monotonicity [] [1], submodularity [0] [1] [0, 1] []]"
  by code_simp

section \<open>Loading\<close>

text \<open>
  Claim C7 asks that a file with a malformed vertex count, an edge with an endpoint out
  of range or a self-loop is rejected. A count that is not a number is rejected. A file
  that declares three vertices and the edge 0,5 loads as a graph with the extra vertex 5
  and that edge, and a file with the edge 1,1 loads as a graph with a self-loop:
  \<^verbatim>\<open>load\<close> has no check of the kind \<^verbatim>\<open>create_graph\<close> makes before \<^verbatim>\<open>G.add_edge\<close>.
\<close>

theorem load_accepts_invalid_edges:
  "load (\<lambda>name. Some (''3'' @ [CHR 0x0A] @ ''0,5'')) ''g.txt'' =
     Some \<lparr>nodes = [0, 1, 2, 5], edges = [(0, 5)]\<rparr> \<and>
   load (\<lambda>name. Some (''2'' @ [CHR 0x0A] @ ''1,1'')) ''g.txt'' =
     Some \<lparr>nodes = [0, 1], edges = [(1, 1)]\<rparr> \<and>
   load (\<lambda>name. Some (''two'' @ [CHR 0x0A] @ ''0,1'')) ''g.txt'' = None"
  by code_simp

text \<open>
  Every graph that \<^verbatim>\<open>load\<close> returns has no vertex twice in its node list, as the
  dictionary behind \<^verbatim>\<open>G.nodes\<close> guarantees.
\<close>

lemma distinct_add_nodes_from: "distinct (nodes G) \<Longrightarrow> distinct (nodes (add_nodes_from vs G))"
  by (induction vs arbitrary: G) simp_all

lemma distinct_add_edge: "distinct (nodes G) \<Longrightarrow> distinct (nodes (add_edge u v G))"
  unfolding add_edge_def using distinct_add_nodes_from [of G "[u, v]"] by simp

lemma distinct_add_edges:
  "distinct (nodes G) \<Longrightarrow> add_edges es G = Inr G' \<Longrightarrow> distinct (nodes G')"
proof (induction es arbitrary: G)
  case Nil
  then show ?case by simp
next
  case (Cons e es)
  then show ?case
    by (auto split: sum.splits prod.splits dest: distinct_add_edge)
qed

lemma load_graph_distinct: "load_graph content = Inr G \<Longrightarrow> distinct (nodes G)"
proof -
  assume a: "load_graph content = Inr G"
  have "distinct (nodes (add_nodes_from (py_range n) empty_graph))" for n
    by (rule distinct_add_nodes_from) (simp add: empty_graph_def)
  with a show ?thesis
    by (auto simp: load_graph_def Let_def split: prod.splits sum.splits dest: distinct_add_edges [rotated])
qed

lemma load_None_iff:
  "load fs filename = None \<longleftrightarrow>
     fs filename = None \<or> (\<exists>content e. fs filename = Some content \<and> load_graph content = Inl e)"
  by (auto simp: load_def split: option.splits sum.splits)

text \<open>
  Claim C10. \<^verbatim>\<open>load\<close> gives \<^verbatim>\<open>None\<close> exactly when the file is missing or reading it
  raises. After such a load the main loop holds \<^verbatim>\<open>None\<close> as its graph, whatever graph
  it held before, the results are reset, and the next Calculate hands \<^verbatim>\<open>None\<close> to
  \<^verbatim>\<open>calculate\<close>, which raises AttributeError.
\<close>

theorem failed_load_installs_None:
  assumes "fs filename = None \<or>
           (\<exists>content e. fs filename = Some content \<and> load_graph content = Inl e)"
  shows "load fs filename = None \<and>
         (\<exists>st'. step solve fs (LoadGraph filename) st = Inr st' \<and> cur_G st' = None \<and>
                fcc st' = - 1 \<and> shannon_ent st' = - 1 \<and>
                step solve fs Calculate st' = Inl AttributeError)"
proof -
  have "load fs filename = None"
    using assms by (simp add: load_None_iff)
  then show ?thesis
    by (simp add: step_def calculate_def)
qed

theorem failed_load_installs_None_witness:
  "load (\<lambda>name. None) ''missing.txt'' = None \<and>
   (\<exists>st'. step (\<lambda>p. \<lparr>status = NotSolved, varValue = (\<lambda>k. None)\<rparr>) (\<lambda>name. None)
            (LoadGraph ''missing.txt'') initial_state = Inr st' \<and>
          cur_G st' = None \<and>
          step (\<lambda>p. \<lparr>status = NotSolved, varValue = (\<lambda>k. None)\<rparr>) (\<lambda>name. None)
            Calculate st' = Inl AttributeError)"
  using failed_load_installs_None [of "\<lambda>name. None" "''missing.txt''"
      "\<lambda>p. \<lparr>status = NotSolved, varValue = (\<lambda>k. None)\<rparr>" initial_state]
  by auto

section \<open>Reading the solver's answer\<close>

text \<open>
  Claim C6, as the code has it. Neither function looks at the solver's status before it
  reads the values: the status is printed only, and what the functions return is the
  same for every status.
\<close>

theorem reports_ignore_status:
  "fractional_clique_cover (\<lambda>p. (solve p)\<lparr>status := s\<rparr>) G = fractional_clique_cover solve G \<and>
   shannon_entropy (\<lambda>p. (solve p)\<lparr>status := s\<rparr>) G = shannon_entropy solve G"
  by (simp add: fractional_clique_cover_def shannon_entropy_def fcc_report_def
      shannon_report_def values_of_def Let_def split: sum.splits)

text \<open>
  With a status of infeasible or unbounded the values are read and post-processed like
  any others, and the result follows them; with no value at all the read raises.
\<close>

theorem values_read_when_infeasible_counterexample:
  "fractional_clique_cover (\<lambda>p. \<lparr>status = Infeasible, varValue = (\<lambda>k. Some 1)\<rparr>)
     \<lparr>nodes = [0], edges = []\<rparr> = Inr (2, [([], Some 1), ([0], Some 1)]) \<and>
   fractional_clique_cover (\<lambda>p. \<lparr>status = Infeasible, varValue = (\<lambda>k. Some (1 / 3))\<rparr>)
     \<lparr>nodes = [0], edges = []\<rparr> = Inr (2 / 3, [([], Some (1 / 3)), ([0], Some (1 / 3))]) \<and>
   shannon_entropy (\<lambda>p. \<lparr>status = Unbounded, varValue = (\<lambda>k. Some 1)\<rparr>)
     \<lparr>nodes = [0], edges = []\<rparr> = Inr (1, [([], Some 1), ([0], Some 1)]) \<and>
   shannon_entropy (\<lambda>p. \<lparr>status = NotSolved, varValue = (\<lambda>k. None)\<rparr>)
     \<lparr>nodes = [0], edges = []\<rparr> = Inl TypeError"
  by code_simp

section \<open>The clique cover model\<close>

lemma mapM_Inr:
  "(\<And>x. x \<in> set xs \<Longrightarrow> f x = Inr (g x)) \<Longrightarrow> mapM f xs = Inr (map g xs)"
  by (induction xs) simp_all

lemma mapM_lp_var: "set cs \<subseteq> set ks \<Longrightarrow> mapM (lp_var ks) cs = Inr cs"
  by (induction cs) (simp_all add: lp_var_def)

lemma cliques_are_keys: "set (enumerate_all_cliques G) \<subseteq> set (subset_keys (nodes G))"
  by (simp add: enumerate_all_cliques_def)

lemma cover_constraint_cliques:
  "cover_constraint (subset_keys (nodes G)) (enumerate_all_cliques G) v =
     Inr \<lparr>c_lhs = map (Pair 1) (filter (\<lambda>clique. v \<in> set clique) (enumerate_all_cliques G)),
          c_sense = GE, c_rhs = 1\<rparr>"
proof -
  have "set (filter (\<lambda>clique. v \<in> set clique) (enumerate_all_cliques G))
          \<subseteq> set (subset_keys (nodes G))"
    using cliques_are_keys [of G] by auto
  then show ?thesis
    by (simp add: cover_constraint_def mapM_lp_var)
qed

lemma eval_lin_ones: "eval_lin val (map (Pair 1) ks) = sum_list (map val ks)"
  by (simp add: eval_lin_def comp_def)

lemma fcc_model_cliques:
  "fractional_clique_cover_model G =
     Inr \<lparr>lp_direction = LpMinimize,
          lp_vars = subset_keys (nodes G),
          lp_objective = map (Pair 1) (subset_keys (nodes G)),
          lp_constraints =
            map (\<lambda>v. \<lparr>c_lhs = map (Pair 1)
                               (filter (\<lambda>clique. v \<in> set clique) (enumerate_all_cliques G)),
                      c_sense = GE, c_rhs = 1\<rparr>)
                (nodes G)\<rparr>"
  by (simp add: fractional_clique_cover_model_def fcc_model_def Let_def
      mapM_Inr [where g = "\<lambda>v. \<lparr>c_lhs = map (Pair 1)
                               (filter (\<lambda>clique. v \<in> set clique) (enumerate_all_cliques G)),
                      c_sense = GE, c_rhs = 1\<rparr>"] cover_constraint_cliques)

text \<open>
  Claim C4. Building the clique cover model never fails. The model minimises the sum of
  the variables of all \<open>2 ^ n\<close> keys; its constraints are, in the order of the nodes, one
  constraint per vertex \<open>v\<close> and nothing else: the sum of the variables of the cliques
  that contain \<open>v\<close> is at least 1. No constraint is an equality, so nothing forces the
  variable of a subset that is not a clique to 0.
\<close>

theorem clique_cover_model_shape:
  "fractional_clique_cover_model G =
     Inr \<lparr>lp_direction = LpMinimize,
          lp_vars = subset_keys (nodes G),
          lp_objective = map (Pair 1) (subset_keys (nodes G)),
          lp_constraints =
            map (\<lambda>v. \<lparr>c_lhs = map (Pair 1)
                               (filter (\<lambda>clique. v \<in> set clique) (enumerate_all_cliques G)),
                      c_sense = GE, c_rhs = 1\<rparr>)
                (nodes G)\<rparr> \<and>
   length (subset_keys (nodes G)) = 2 ^ length (nodes G) \<and>
   eval_lin val (map (Pair 1) (subset_keys (nodes G))) = sum_list (map val (subset_keys (nodes G))) \<and>
   satisfies val \<lparr>c_lhs = map (Pair 1) (filter (\<lambda>clique. v \<in> set clique) (enumerate_all_cliques G)),
                  c_sense = GE, c_rhs = 1\<rparr> =
     (1 \<le> sum_list (map val (filter (\<lambda>clique. v \<in> set clique) (enumerate_all_cliques G))))"
  by (simp add: fcc_model_cliques length_subset_keys eval_lin_ones satisfies_def)

theorem clique_cover_model_shape_witness:
  "fractional_clique_cover_model \<lparr>nodes = [0, 1, 2], edges = [(0, 1), (1, 2)]\<rparr> =
     Inr \<lparr>lp_direction = LpMinimize,
          lp_vars = [[], [0], [1], [2], [0, 1], [0, 2], [1, 2], [0, 1, 2]],
          lp_objective = [(1, []), (1, [0]), (1, [1]), (1, [2]), (1, [0, 1]), (1, [0, 2]),
                          (1, [1, 2]), (1, [0, 1, 2])],
          lp_constraints =
            [\<lparr>c_lhs = [(1, [0]), (1, [0, 1])], c_sense = GE, c_rhs = 1\<rparr>,
             \<lparr>c_lhs = [(1, [1]), (1, [0, 1]), (1, [1, 2])], c_sense = GE, c_rhs = 1\<rparr>,
             \<lparr>c_lhs = [(1, [2]), (1, [1, 2])], c_sense = GE, c_rhs = 1\<rparr>]\<rparr>"
proof -
  have "subset_keys [0, 1, 2 :: int] = [[], [0], [1], [2], [0, 1], [0, 2], [1, 2], [0, 1, 2]]"
    by code_simp
  moreover have "enumerate_all_cliques \<lparr>nodes = [0, 1, 2], edges = [(0, 1), (1, 2)]\<rparr> =
      [[0], [1], [2], [0, 1], [1, 2]]"
    by code_simp
  ultimately show ?thesis
    using clique_cover_model_shape [of "\<lparr>nodes = [0, 1, 2], edges = [(0, 1), (1, 2)]\<rparr>",
        THEN conjunct1]
    by simp
qed

lemma member_le_sum_list_map:
  fixes f :: "'a \<Rightarrow> rat"
  shows "x \<in> set xs \<Longrightarrow> (\<And>y. y \<in> set xs \<Longrightarrow> 0 \<le> f y) \<Longrightarrow> f x \<le> sum_list (map f xs)"
proof (induction xs)
  case Nil
  then show ?case by simp
next
  case (Cons a xs)
  have nn: "0 \<le> sum_list (map f xs)"
    using Cons.prems(2) by (intro sum_list_nonneg) auto
  show ?case
  proof (cases "x = a")
    case True
    then show ?thesis using nn by simp
  next
    case False
    then have "f x \<le> sum_list (map f xs)"
      using Cons by auto
    moreover have "0 \<le> f a" using Cons.prems(2) by simp
    ultimately show ?thesis by simp
  qed
qed

lemma is_clique_iff:
  "is_clique G c \<longleftrightarrow> (\<forall>u \<in> set c. \<forall>v \<in> set c. u \<noteq> v \<longrightarrow> adjacent G u v)"
  by (auto simp: is_clique_def list_all_iff)

lemma singleton_is_clique_entry:
  "v \<in> set (nodes G) \<Longrightarrow> [v] \<in> set (enumerate_all_cliques G)"
  by (simp add: enumerate_all_cliques_def set_subset_keys subseq_singleton_left is_clique_iff)

text \<open>
  Claim C5. For every graph, with or without vertices, the assignment of weight 1 to
  every singleton subset and 0 to every other subset respects the lower bounds and
  satisfies every constraint of the clique cover model.
\<close>

theorem all_singletons_feasible:
  "\<exists>lp. fractional_clique_cover_model G = Inr lp \<and> feasible lp all_singletons"
proof -
  let ?K = "enumerate_all_cliques G"
  have bound: "list_all (\<lambda>k. 0 \<le> all_singletons k) (subset_keys (nodes G))"
    by (simp add: list_all_iff all_singletons_def)
  have cover: "1 \<le> sum_list (map all_singletons (filter (\<lambda>clique. v \<in> set clique) ?K))"
    if "v \<in> set (nodes G)" for v
  proof -
    have "[v] \<in> set (filter (\<lambda>clique. v \<in> set clique) ?K)"
      using that by (simp add: singleton_is_clique_entry)
    then have "all_singletons [v] \<le> sum_list (map all_singletons (filter (\<lambda>clique. v \<in> set clique) ?K))"
      by (rule member_le_sum_list_map) (simp add: all_singletons_def)
    then show ?thesis by (simp add: all_singletons_def)
  qed
  show ?thesis
    using bound cover
    by (simp add: fcc_model_cliques feasible_def list_all_iff satisfies_def eval_lin_ones)
qed

theorem all_singletons_feasible_witness:
  "\<exists>lp. fractional_clique_cover_model \<lparr>nodes = [0, 1, 2], edges = [(0, 1), (1, 2)]\<rparr> = Inr lp \<and>
        feasible lp all_singletons"
  by (rule all_singletons_feasible [of "\<lparr>nodes = [0, 1, 2], edges = [(0, 1), (1, 2)]\<rparr>"])

text \<open>
  What the enumeration does list: for a graph whose node list has no vertex twice, no
  entry twice, the singleton of every vertex, cliques only, and every non-empty set of
  pairwise adjacent vertices exactly once.
\<close>

lemma clique_enumeration_nonempty:
  "distinct (nodes G) \<Longrightarrow>
     distinct (enumerate_all_cliques G) \<and>
     (\<forall>v \<in> set (nodes G). [v] \<in> set (enumerate_all_cliques G)) \<and>
     (\<forall>c \<in> set (enumerate_all_cliques G).
        set c \<subseteq> set (nodes G) \<and> (\<forall>u \<in> set c. \<forall>v \<in> set c. u \<noteq> v \<longrightarrow> adjacent G u v)) \<and>
     (\<forall>C. C \<noteq> {} \<and> C \<subseteq> set (nodes G) \<and> (\<forall>u \<in> C. \<forall>v \<in> C. u \<noteq> v \<longrightarrow> adjacent G u v) \<longrightarrow>
        (\<exists>!c. c \<in> set (enumerate_all_cliques G) \<and> set c = C))"
proof -
  assume d: "distinct (nodes G)"
  let ?K = "enumerate_all_cliques G"
  have 1: "distinct ?K"
    using distinct_subset_keys [OF d] by (simp add: enumerate_all_cliques_def)
  have 3: "\<forall>v \<in> set (nodes G). [v] \<in> set ?K"
    by (simp add: singleton_is_clique_entry)
  have 4: "\<forall>c \<in> set ?K.
        set c \<subseteq> set (nodes G) \<and> (\<forall>u \<in> set c. \<forall>v \<in> set c. u \<noteq> v \<longrightarrow> adjacent G u v)"
    using set_image_subset_keys [of "nodes G"]
    by (auto simp: enumerate_all_cliques_def is_clique_iff)
  have 5: "\<exists>!c. c \<in> set ?K \<and> set c = C"
    if ne: "C \<noteq> {}" and C: "C \<subseteq> set (nodes G)"
      and adj: "\<forall>u \<in> C. \<forall>v \<in> C. u \<noteq> v \<longrightarrow> adjacent G u v" for C
  proof -
    from C have "C \<in> set ` set (subset_keys (nodes G))"
      by (simp add: set_image_subset_keys)
    then obtain c where c: "c \<in> set (subset_keys (nodes G))" "set c = C"
      by auto
    from c(2) ne have "c \<noteq> []" by auto
    with adj c have "c \<in> set ?K"
      by (simp add: enumerate_all_cliques_def is_clique_iff)
    moreover have "c' = c" if "c' \<in> set ?K" "set c' = C" for c'
      using that c subset_keys_inj_set [OF d, of c' c]
      by (simp add: enumerate_all_cliques_def)
    ultimately show ?thesis using c(2) by blast
  qed
  have 6: "\<forall>C. C \<noteq> {} \<and> C \<subseteq> set (nodes G) \<and> (\<forall>u \<in> C. \<forall>v \<in> C. u \<noteq> v \<longrightarrow> adjacent G u v) \<longrightarrow>
        (\<exists>!c. c \<in> set ?K \<and> set c = C)"
  proof (intro allI impI)
    fix C
    assume "C \<noteq> {} \<and> C \<subseteq> set (nodes G) \<and> (\<forall>u \<in> C. \<forall>v \<in> C. u \<noteq> v \<longrightarrow> adjacent G u v)"
    then have "C \<noteq> {}" and "C \<subseteq> set (nodes G)"
      and "\<forall>u \<in> C. \<forall>v \<in> C. u \<noteq> v \<longrightarrow> adjacent G u v"
      by simp_all
    then show "\<exists>!c. c \<in> set ?K \<and> set c = C"
      by (rule 5)
  qed
  show ?thesis
    by (rule conjI [OF 1 conjI [OF 3 conjI [OF 4 6]]])
qed

text \<open>
  Claim C3 asks that the enumeration lists every clique once, the empty clique and every
  singleton included, as the comment on line 14 says of \<open>K\<close>. The list never holds the
  empty clique: for the path on the vertices 0, 1, 2 it is the three singletons and the
  two edges.
\<close>

theorem clique_enumeration_omits_empty:
  "[] \<notin> set (enumerate_all_cliques G) \<and>
   enumerate_all_cliques \<lparr>nodes = [0, 1, 2], edges = [(0, 1), (1, 2)]\<rparr> =
     [[0], [1], [2], [0, 1], [1, 2]]"
proof -
  have "[] \<notin> set (enumerate_all_cliques G)"
    by (simp add: enumerate_all_cliques_def)
  moreover have "enumerate_all_cliques \<lparr>nodes = [0, 1, 2], edges = [(0, 1), (1, 2)]\<rparr> =
      [[0], [1], [2], [0, 1], [1, 2]]"
    by code_simp
  ultimately show ?thesis by (rule conjI)
qed

section \<open>The rational approximation\<close>

lemma closest_mem: "closest x b cs \<in> insert b (set cs)"
  by (induction cs arbitrary: b) auto

lemma closest_le_best: "\<bar>x - closest x b cs\<bar> \<le> \<bar>x - b\<bar>"
proof (induction cs arbitrary: b)
  case Nil
  then show ?case by simp
next
  case (Cons c cs)
  show ?case
    using Cons [of "if \<bar>x - c\<bar> < \<bar>x - b\<bar> then c else b"] by (auto split: if_splits)
qed

lemma closest_le_candidate: "c \<in> set cs \<Longrightarrow> \<bar>x - closest x b cs\<bar> \<le> \<bar>x - c\<bar>"
proof (induction cs arbitrary: b)
  case Nil
  then show ?case by simp
next
  case (Cons a cs)
  show ?case
  proof (cases "c = a")
    case True
    have "\<bar>x - closest x (if \<bar>x - a\<bar> < \<bar>x - b\<bar> then a else b) cs\<bar>
            \<le> \<bar>x - (if \<bar>x - a\<bar> < \<bar>x - b\<bar> then a else b)\<bar>"
      by (rule closest_le_best)
    then show ?thesis using True by (auto split: if_splits)
  next
    case False
    then have "c \<in> set cs" using Cons.prems by simp
    then show ?thesis using Cons.IH by simp
  qed
qed

lemma nearest_numerator:
  fixes x :: rat and p q :: int
  assumes "0 < q"
  shows "\<bar>x - of_int (round (x * of_int q)) / of_int q\<bar> \<le> \<bar>x - of_int p / of_int q\<bar>"
proof -
  have q: "(0::rat) < of_int q" using assms by simp
  have "\<bar>x * of_int q - of_int (round (x * of_int q))\<bar> \<le> \<bar>x * of_int q - of_int p\<bar>"
    by (rule round_diff_minimal)
  then have "\<bar>x * of_int q - of_int (round (x * of_int q))\<bar> / of_int q
              \<le> \<bar>x * of_int q - of_int p\<bar> / of_int q"
    using q by (simp add: divide_right_mono)
  moreover have "\<bar>x * of_int q - of_int n\<bar> / of_int q = \<bar>x - of_int n / of_int q\<bar>" for n :: int
  proof -
    have "\<bar>x - of_int n / of_int q\<bar> = \<bar>(x * of_int q - of_int n) / of_int q\<bar>"
      using q by (simp add: field_simps)
    also have "\<dots> = \<bar>x * of_int q - of_int n\<bar> / of_int q"
      using q by (simp add: abs_divide)
    finally show ?thesis by simp
  qed
  ultimately show ?thesis by simp
qed

lemma candidate_mem:
  fixes q :: int
  assumes "0 < q" "q \<le> 100"
  shows "of_int (round (x * of_int q)) / of_int q \<in> set (candidates x)"
proof -
  have "nat q \<in> set [1 ..< 101]" using assms by auto
  then have "of_int (round (x * of_nat (nat q))) / of_nat (nat q) \<in> set (candidates x)"
    unfolding candidates_def set_map by (rule imageI)
  then show ?thesis using assms by simp
qed

lemma denominator_quotient:
  fixes n q :: int
  assumes "0 < q"
  shows "snd (quotient_of (of_int n / of_int q :: rat)) \<le> q"
proof -
  have "quotient_of (of_int n / of_int q :: rat) = Rat.normalize (n, q)"
    by (simp add: quotient_of_Fract [symmetric] Fract_of_int_quotient)
  moreover have "snd (Rat.normalize (n, q)) \<le> q"
  proof -
    have "0 < gcd n q" using assms by (simp add: gcd_pos_int)
    then have g: "1 \<le> gcd n q" by linarith
    have "q div gcd n q \<le> q div 1"
      by (rule zdiv_mono2) (use assms g in simp_all)
    then show ?thesis
      using assms by (simp add: Rat.normalize_def Let_def)
  qed
  ultimately show ?thesis by simp
qed


text \<open>
  Claim C9, for the approximation as the specification describes it. The value returned
  for \<open>x\<close> is at least as close to \<open>x\<close> as every fraction with a denominator from 1 to
  100, its own denominator is at most 100, and an \<open>x\<close> whose denominator is at most 100,
  such as one half, is returned unchanged. Every finite floating-point number is a
  rational, so this covers every finite input.
\<close>

theorem limit_denominator_best:
  "(\<forall>p q. 0 < q \<and> q \<le> 100 \<longrightarrow>
      \<bar>x - limit_denominator_100 x\<bar> \<le> \<bar>x - of_int p / of_int q\<bar>) \<and>
   snd (quotient_of (limit_denominator_100 x)) \<le> 100 \<and>
   (snd (quotient_of x) \<le> 100 \<longrightarrow> limit_denominator_100 x = x)"
proof -
  let ?r = "limit_denominator_100 x"
  have best: "\<bar>x - ?r\<bar> \<le> \<bar>x - of_int p / of_int q\<bar>" if "0 < q" "q \<le> 100" for p q :: int
  proof -
    have "\<bar>x - ?r\<bar> \<le> \<bar>x - of_int (round (x * of_int q)) / of_int q\<bar>"
      unfolding limit_denominator_100_def
      by (rule closest_le_candidate) (rule candidate_mem [OF that])
    also have "\<dots> \<le> \<bar>x - of_int p / of_int q\<bar>"
      by (rule nearest_numerator [OF that(1)])
    finally show ?thesis .
  qed
  have den: "snd (quotient_of ?r) \<le> 100"
  proof -
    have "?r \<in> insert (of_int (round x)) (set (candidates x))"
      unfolding limit_denominator_100_def by (rule closest_mem)
    then consider "?r = of_int (round x)"
      | q where "q \<in> set [1 ..< 101]" "?r = of_int (round (x * of_nat q)) / of_nat q"
      unfolding candidates_def set_map by blast
    then show ?thesis
    proof cases
      case 1
      then show ?thesis by simp
    next
      case 2
      then have q: "0 < int q" "int q \<le> 100" by auto
      have "snd (quotient_of (of_int (round (x * of_nat q)) / of_int (int q) :: rat)) \<le> int q"
        by (rule denominator_quotient [OF q(1)])
      then show ?thesis using 2(2) q(2) by simp
    qed
  qed
  have exact: "?r = x" if "snd (quotient_of x) \<le> 100"
  proof -
    obtain p q where pq: "quotient_of x = (p, q)" by (cases "quotient_of x")
    then have "0 < q" and "x = of_int p / of_int q"
      by (simp_all add: quotient_of_denom_pos quotient_of_div)
    moreover have "q \<le> 100" using that pq by simp
    ultimately have "\<bar>x - ?r\<bar> \<le> \<bar>x - x\<bar>"
      using best [of q p] by simp
    then show ?thesis by simp
  qed
  show ?thesis
    using best den exact by blast
qed

theorem limit_denominator_best_witness:
  "snd (quotient_of (1 / 2 :: rat)) \<le> 100 \<and>
   limit_denominator_100 (1 / 2) = 1 / 2 \<and>
   snd (quotient_of (limit_denominator_100 (1 / 2))) \<le> 100"
proof -
  have q: "snd (quotient_of (1 / 2 :: rat)) \<le> 100"
    by code_simp
  note t = limit_denominator_best [of "1 / 2"]
  from t q have e: "limit_denominator_100 (1 / 2) = 1 / 2"
    by blast
  from t have d: "snd (quotient_of (limit_denominator_100 (1 / 2))) \<le> 100"
    by blast
  show ?thesis
    by (rule conjI [OF q conjI [OF e d]])
qed

section \<open>An optimum of the entropy model that is not monotone\<close>

text \<open>
  The entropy model of the complete bipartite graph is built without a KeyError; the
  assignment of the table satisfies all of its 476 constraints, and nine of the
  constraints bound the value of the full vertex set by 2.
\<close>

lemma K23_model:
  "(case shannon_model K23 of
      Inl e \<Rightarrow> False
    | Inr lp \<Rightarrow>
        feasible lp K23_val \<and>
        lp_direction lp = LpMaximize \<and>
        lp_objective lp = [(1, [0, 1, 2, 3, 4])] \<and>
        list_all (\<lambda>k. k \<in> set (lp_vars lp)) [[]] \<and>
        list_all (\<lambda>c. c \<in> set (lp_constraints lp))
          [\<lparr>c_lhs = [(1, [0])], c_sense = LE, c_rhs = 1\<rparr>,
           \<lparr>c_lhs = [(1, [4])], c_sense = LE, c_rhs = 1\<rparr>,
           \<lparr>c_lhs = [(1, [0, 1, 4]), (- 1, [0, 4])], c_sense = EQ, c_rhs = 0\<rparr>,
           \<lparr>c_lhs = [(1, [0, 2, 4]), (- 1, [0, 4])], c_sense = EQ, c_rhs = 0\<rparr>,
           \<lparr>c_lhs = [(1, [0, 3, 4]), (- 1, [0, 4])], c_sense = EQ, c_rhs = 0\<rparr>,
           submodularity [0] [4] [0, 4] [],
           submodularity [0, 1, 4] [0, 2, 3, 4] [0, 1, 2, 3, 4] [0, 4],
           submodularity [0, 2, 4] [0, 3, 4] [0, 2, 3, 4] [0, 4]])"
  by code_simp

lemma K23_bound:
  fixes val :: "key \<Rightarrow> rat"
  assumes "0 \<le> val []"
    and "satisfies val \<lparr>c_lhs = [(1, [0])], c_sense = LE, c_rhs = 1\<rparr>"
    and "satisfies val \<lparr>c_lhs = [(1, [4])], c_sense = LE, c_rhs = 1\<rparr>"
    and "satisfies val \<lparr>c_lhs = [(1, [0, 1, 4]), (- 1, [0, 4])], c_sense = EQ, c_rhs = 0\<rparr>"
    and "satisfies val \<lparr>c_lhs = [(1, [0, 2, 4]), (- 1, [0, 4])], c_sense = EQ, c_rhs = 0\<rparr>"
    and "satisfies val \<lparr>c_lhs = [(1, [0, 3, 4]), (- 1, [0, 4])], c_sense = EQ, c_rhs = 0\<rparr>"
    and "satisfies val (submodularity [0] [4] [0, 4] [])"
    and "satisfies val (submodularity [0, 1, 4] [0, 2, 3, 4] [0, 1, 2, 3, 4] [0, 4])"
    and "satisfies val (submodularity [0, 2, 4] [0, 3, 4] [0, 2, 3, 4] [0, 4])"
  shows "val [0, 1, 2, 3, 4] \<le> 2"
  using assms by (simp add: satisfies_def eval_lin_def submodularity_def)

text \<open>
  Claim C2 asks that in every optimal solution of the entropy model the value of a
  subset is at most the value of each of its supersets, the full vertex set included.
  For the complete bipartite graph with the parts \<open>{0, 4}\<close> and \<open>{1, 2, 3}\<close> the
  assignment of the table is an optimal solution of the model the code builds, with the
  objective value 2, and gives \<open>{0, 1, 2, 3}\<close> the value 5/2: no constraint of the model
  compares a subset with the full vertex set.
\<close>

theorem shannon_optimum_not_monotone:
  "\<exists>lp. shannon_model K23 = Inr lp \<and> optimal_solution lp K23_val \<and>
        set [0, 1, 2, 3] \<subseteq> set [0, 1, 2, 3, 4 :: int] \<and>
        K23_val [0, 1, 2, 3, 4] < K23_val [0, 1, 2, 3]"
proof -
  obtain lp where lp: "shannon_model K23 = Inr lp"
    using K23_model by (cases "shannon_model K23") simp_all
  note m = K23_model [unfolded lp, simplified]
  have feas: "feasible lp K23_val" using m by blast
  have obj: "lp_objective lp = [(1, [0, 1, 2, 3, 4])]" and dir: "lp_direction lp = LpMaximize"
    using m by blast+
  have top: "K23_val [0, 1, 2, 3, 4] = 2" and sub: "K23_val [0, 1, 2, 3] = 5 / 2"
    by (simp_all add: K23_val_def K23_table_def)
  have bound: "val' [0, 1, 2, 3, 4] \<le> 2" if f: "feasible lp val'" for val'
  proof -
    have c: "satisfies val' c" if "c \<in> set (lp_constraints lp)" for c
      using f that by (simp add: feasible_def list_all_iff)
    have v: "0 \<le> val' []"
      using f m by (simp add: feasible_def list_all_iff)
    show ?thesis
      by (rule K23_bound [of val']) (rule v, (rule c, use m in simp)+)
  qed
  have "optimal_solution lp K23_val"
    using feas bound by (simp add: optimal_solution_def dir obj eval_lin_def top)
  then show ?thesis
    using lp top sub by simp
qed

theorem shannon_optimum_not_monotone_witness:
  "\<exists>lp. shannon_model K23 = Inr lp \<and> feasible lp K23_val \<and>
        K23_val [0, 1, 2, 3, 4] < K23_val [0, 1, 2, 3]"
  using shannon_optimum_not_monotone unfolding optimal_solution_def by blast

end
